theory Spec2Isabelle
  imports Main
begin

section \<open>Errors and settled actions\<close>

text \<open>
  \<^verbatim>\<open>EstimateTotalGasErrorType\<close> is the union of \<^verbatim>\<open>RequestErrorType\<close>,
  \<^verbatim>\<open>PrepareTransactionRequestErrorType\<close>, \<^verbatim>\<open>EstimateL1GasErrorType\<close>,
  \<^verbatim>\<open>EstimateGasErrorType\<close> and \<^verbatim>\<open>ErrorType\<close>. A rejected promise is a value
  \<open>Inl e\<close> with \<open>e\<close> of this type; the string is the error's message.
\<close>

datatype error =
    RequestError string
  | PrepareTransactionRequestError string
  | EstimateL1GasError string
  | EstimateGasError string
  | OtherError string

text \<open>
  What an awaited action settles to: the value it resolves with or the error it rejects
  with, together with the number of RPC calls it issued through the client's transport.
\<close>

record 'v settled =
  outcome :: "error + 'v"
  rpcCalls :: nat

text \<open>
  The actions that \<^verbatim>\<open>estimateTotalGas.ts\<close> imports from
  \<^verbatim>\<open>actions/wallet/prepareTransactionRequest.js\<close>, \<^verbatim>\<open>./estimateL1Gas.js\<close> and
  \<^verbatim>\<open>actions/public/estimateGas.js\<close>. Their bodies are not part of the sources at hand,
  so they are parameters: \<open>'c\<close> is the client, \<open>'a\<close> the parameter record handed to
  \<^verbatim>\<open>estimateTotalGas\<close>, \<open>'r\<close> the prepared request. Gas amounts are \<^verbatim>\<open>bigint\<close>,
  hence \<^typ>\<open>int\<close>.
\<close>

record ('c, 'a, 'r) imported =
  prepareTransactionRequest :: "'c \<Rightarrow> 'a \<Rightarrow> 'r settled"
  estimateL1Gas :: "'c \<Rightarrow> 'r \<Rightarrow> int settled"
  estimateGas :: "'c \<Rightarrow> 'r \<Rightarrow> int settled"

text \<open>The invocations of imported actions that a run makes, in the order they are made.\<close>

datatype ('c, 'a, 'r) call =
    PrepareTransactionRequestCall 'c 'a
  | EstimateL1GasCall 'c 'r
  | EstimateGasCall 'c 'r

fun isPrepareCall :: "('c, 'a, 'r) call \<Rightarrow> bool" where
  "isPrepareCall (PrepareTransactionRequestCall _ _) = True"
| "isPrepareCall (EstimateL1GasCall _ _) = False"
| "isPrepareCall (EstimateGasCall _ _) = False"

section \<open>Promise.all over two promises\<close>

text \<open>
  \<^verbatim>\<open>Promise.all([p, q])\<close> resolves with both values when both promises resolve, and
  rejects with the error of the first promise to reject. When both reject, which error
  that is depends on which promise settles first; that is the \<open>settleOrder\<close>.
\<close>

datatype settleOrder = FirstSettlesFirst | SecondSettlesFirst

fun promiseAll :: "settleOrder \<Rightarrow> error + 'x \<Rightarrow> error + 'y \<Rightarrow> error + ('x \<times> 'y)" where
  "promiseAll _ (Inr x) (Inr y) = Inr (x, y)"
| "promiseAll _ (Inl e) (Inr _) = Inl e"
| "promiseAll _ (Inr _) (Inl e) = Inl e"
| "promiseAll FirstSettlesFirst (Inl e1) (Inl _) = Inl e1"
| "promiseAll SecondSettlesFirst (Inl _) (Inl e2) = Inl e2"

section \<open>estimateTotalGas\<close>

text \<open>
  A run of \<^verbatim>\<open>estimateTotalGas\<close>: what its promise settles to, the imported actions it
  invoked, and the RPC calls those actions issued through the client's transport
  (\<^verbatim>\<open>estimateTotalGas\<close> has no \<^verbatim>\<open>client.request\<close> of its own).
\<close>

record ('c, 'a, 'r) run =
  returned :: "error + int"
  calls :: "('c, 'a, 'r) call list"
  rpcTotal :: nat

text \<open>
  \<^verbatim>\<open>
  const request = await prepareTransactionRequest(client, args)
  const [l1Gas, l2Gas] = await Promise.all([
    estimateL1Gas(client, request),
    estimateGas(client, request),
  ])
  return l1Gas + l2Gas
  \<close>
  A rejected \<^verbatim>\<open>await\<close> rejects the \<^verbatim>\<open>async\<close> function with the same error and runs
  nothing after it. Both array elements are evaluated, left to right, before
  \<^verbatim>\<open>Promise.all\<close> is called, so both estimates are invoked whenever preparation succeeds.
\<close>

definition estimateTotalGas ::
  "('c, 'a, 'r) imported \<Rightarrow> settleOrder \<Rightarrow> 'c \<Rightarrow> 'a \<Rightarrow> ('c, 'a, 'r) run" where
  "estimateTotalGas env order client args =
    (let prepared = prepareTransactionRequest env client args in
     case outcome prepared of
       Inl e \<Rightarrow>
         \<lparr>returned = Inl e,
          calls = [PrepareTransactionRequestCall client args],
          rpcTotal = rpcCalls prepared\<rparr>
     | Inr request \<Rightarrow>
        (let l1 = estimateL1Gas env client request;
             l2 = estimateGas env client request
         in \<lparr>returned =
               (case promiseAll order (outcome l1) (outcome l2) of
                  Inl e \<Rightarrow> Inl e
                | Inr (l1Gas, l2Gas) \<Rightarrow> Inr (l1Gas + l2Gas)),
             calls = [PrepareTransactionRequestCall client args,
                      EstimateL1GasCall client request,
                      EstimateGasCall client request],
             rpcTotal = rpcCalls prepared + rpcCalls l1 + rpcCalls l2\<rparr>))"

section \<open>JavaScript values\<close>

text \<open>
  The EIP-1193 request shape (\<^verbatim>\<open>Requests['request']\<close>): a method name and its
  parameters go in, a result or an error comes out. Parameters and results are kept as
  JSON text.
\<close>

type_synonym requestFn = "string \<Rightarrow> string list \<Rightarrow> error + string"

text \<open>
  An object is the list of its members in insertion order. \<open>RequestFn\<close> is a function
  value of the request shape; \<open>OtherFn\<close> is a function value of another shape, whose
  behaviour nothing here depends on.
\<close>

datatype jsval =
    Undefined
  | Null
  | Num int
  | Str string
  | Arr "jsval list"
  | Obj "(string \<times> jsval) list"
  | RequestFn requestFn
  | OtherFn

type_synonym jsobj = "(string \<times> jsval) list"

definition hasProperty :: "jsobj \<Rightarrow> string \<Rightarrow> bool" where
  "hasProperty obj k = (k \<in> set (map fst obj))"

text \<open>Reading a member: \<^verbatim>\<open>obj.k\<close> is \<^verbatim>\<open>undefined\<close> when \<open>obj\<close> has no member \<open>k\<close>.\<close>

definition property :: "jsobj \<Rightarrow> string \<Rightarrow> jsval" where
  "property obj k = (case map_of obj k of None \<Rightarrow> Undefined | Some v \<Rightarrow> v)"

text \<open>
  Reading along a path of objects, \<^verbatim>\<open>v.a.b.c\<close>. The result is \<open>None\<close> when a step
  reads a member of something that is not an object.
\<close>

fun path :: "jsval \<Rightarrow> string list \<Rightarrow> jsval option" where
  "path v [] = Some v"
| "path (Obj obj) (k # ks) = path (property obj k) ks"
| "path _ (_ # _) = None"

fun isFunction :: "jsval \<Rightarrow> bool" where
  "isFunction (RequestFn _) = True"
| "isFunction OtherFn = True"
| "isFunction _ = False"

fun isRequestFn :: "jsval \<Rightarrow> bool" where
  "isRequestFn (RequestFn _) = True"
| "isRequestFn _ = False"

text \<open>The names of the members of an object that hold functions.\<close>

definition functionMembers :: "jsobj \<Rightarrow> string list" where
  "functionMembers obj = map fst (filter (\<lambda>kv. isFunction (snd kv)) obj)"

section \<open>Chain definitions\<close>

text \<open>
  Modelled from the spec: \<^verbatim>\<open>defineChain\<close> (\<^verbatim>\<open>utils/chain/defineChain.ts\<close>, which is not
  among the sources). The spec calls the chain definitions declarative chain-metadata
  tables; the table handed to \<^verbatim>\<open>defineChain\<close> is the chain definition.
\<close>

definition defineChain :: "jsobj \<Rightarrow> jsobj" where
  "defineChain chain = chain"

definition skaleCryptoColosseum :: jsobj where
  "skaleCryptoColosseum = defineChain
    [(''id'', Num 2046399126),
     (''name'', Str ''SKALE | Crypto Colosseum''),
     (''nativeCurrency'',
        Obj [(''name'', Str ''sFUEL''), (''symbol'', Str ''sFUEL''), (''decimals'', Num 18)]),
     (''rpcUrls'',
        Obj [(''default'',
           Obj [(''http'', Arr [Str ''https://mainnet.skalenodes.com/v1/haunting-devoted-deneb'']),
                (''webSocket'',
                   Arr [Str ''wss://mainnet.skalenodes.com/v1/ws/haunting-devoted-deneb''])])]),
     (''blockExplorers'',
        Obj [(''default'',
           Obj [(''name'', Str ''SKALE Explorer''),
                (''url'', Str ''https://haunting-devoted-deneb.explorer.mainnet.skalenodes.com'')])]),
     (''contracts'', Obj [])]"

section \<open>Transports\<close>

text \<open>
  Modelled from the spec: \<^verbatim>\<open>createTransport\<close>, \<^verbatim>\<open>http\<close>, \<^verbatim>\<open>webSocket\<close> and
  \<^verbatim>\<open>ethereumProvider\<close> (\<^verbatim>\<open>clients/transports\<close>, which is not among the sources; the
  test of \<^verbatim>\<open>createClient\<close> is, and its snapshots show the objects they produce). A
  mock is built with \<^verbatim>\<open>createTransport({ key, name, request, type })\<close>. A
  transport turns an RPC method name and parameters into a response, over HTTP
  request/response, over a persistent WebSocket connection, or through an injected
  provider's own request function. The function that does the round trip is a parameter.
  The client configuration takes a factory (\<^verbatim>\<open>transport: http()\<close>,
  \<^verbatim>\<open>transport: mockTransport\<close>), which \<^verbatim>\<open>createClient\<close> calls.
\<close>

type_synonym transportFactory = "unit \<Rightarrow> jsobj"

definition createTransport :: "string \<Rightarrow> string \<Rightarrow> requestFn \<Rightarrow> string \<Rightarrow> jsobj" where
  "createTransport key name request type =
     [(''key'', Str key), (''name'', Str name), (''request'', RequestFn request),
      (''type'', Str type)]"

text \<open>
  Modelled from the spec: \<^verbatim>\<open>http\<close>, the transport over HTTP request/response. Its
  object has \<^verbatim>\<open>key\<close>, \<^verbatim>\<open>name\<close>, \<^verbatim>\<open>request\<close>, \<^verbatim>\<open>type\<close> and \<^verbatim>\<open>url\<close>, the
  URL it was given or \<^verbatim>\<open>undefined\<close>.
\<close>

definition http :: "requestFn \<Rightarrow> string option \<Rightarrow> transportFactory" where
  "http rpc url = (\<lambda>_.
     createTransport ''http'' ''HTTP JSON-RPC'' rpc ''http''
       @ [(''url'', case url of None \<Rightarrow> Undefined | Some u \<Rightarrow> Str u)])"

text \<open>
  Modelled from the spec: \<^verbatim>\<open>webSocket\<close>, the transport over a persistent WebSocket
  connection. Its object has \<^verbatim>\<open>getSocket\<close> and \<^verbatim>\<open>subscribe\<close> besides the members
  of every transport.
\<close>

definition webSocket :: "requestFn \<Rightarrow> string \<Rightarrow> transportFactory" where
  "webSocket rpc url = (\<lambda>_.
     createTransport ''webSocket'' ''WebSocket JSON-RPC'' rpc ''webSocket''
       @ [(''getSocket'', OtherFn), (''subscribe'', OtherFn)])"

text \<open>
  Modelled from the spec: \<^verbatim>\<open>ethereumProvider\<close>, the transport through an injected
  provider's own request function.
\<close>

definition ethereumProvider :: "requestFn \<Rightarrow> transportFactory" where
  "ethereumProvider providerRequest = (\<lambda>_.
     createTransport ''ethereumProvider'' ''Ethereum Provider'' providerRequest
       ''ethereumProvider'')"

text \<open>
  Modelled from the spec: the request function of a transport object, to which the
  client's uniform request entry point hands each call. Calling a member that is not a function
  is a \<^verbatim>\<open>TypeError\<close> at the call.
\<close>

definition requestOf :: "jsobj \<Rightarrow> requestFn" where
  "requestOf t =
     (case property t ''request'' of
        RequestFn f \<Rightarrow> f
      | _ \<Rightarrow> (\<lambda>_ _. Inl (OtherError ''TypeError: request is not a function'')))"

section \<open>createClient\<close>

text \<open>
  Modelled from the spec: the configuration handed to \<^verbatim>\<open>createClient\<close>, with the
  fields that the test of \<^verbatim>\<open>createClient\<close> sets. Only \<^verbatim>\<open>transport\<close> is required; an
  optional field that is left out is \<open>None\<close>.
\<close>

record clientConfig =
  chain :: "jsobj option"
  key :: "string option"
  name :: "string option"
  pollingInterval :: "int option"
  transport :: transportFactory
  type :: "string option"

text \<open>
  Modelled from the spec: \<^verbatim>\<open>createClient\<close> (\<^verbatim>\<open>clients/createClient.ts\<close>, which is not
  among the sources; its test is). A client is a composition of a transport, optional chain
  metadata and a polling interval, exposing a single uniform request entry point; the
  entry point hands each call to the request of the bound transport. The defaults are
  those of the test's snapshots. \<open>uid\<close> is the identifier drawn for this client.
\<close>

definition createClient :: "clientConfig \<Rightarrow> string \<Rightarrow> jsobj" where
  "createClient config uid =
    (let bound = transport config ()
     in [(''chain'', case chain config of None \<Rightarrow> Undefined | Some c \<Rightarrow> Obj c),
         (''key'', Str (case key config of None \<Rightarrow> ''base'' | Some k \<Rightarrow> k)),
         (''name'', Str (case name config of None \<Rightarrow> ''Base Client'' | Some n \<Rightarrow> n)),
         (''pollingInterval'',
            Num (case pollingInterval config of None \<Rightarrow> 4000 | Some ms \<Rightarrow> ms)),
         (''request'', RequestFn (requestOf bound)),
         (''transport'', Obj bound),
         (''type'', Str (case type config of None \<Rightarrow> ''base'' | Some t \<Rightarrow> t)),
         (''uid'', Str uid)])"

text \<open>\<^verbatim>\<open>createClient({ transport })\<close>: the configuration with nothing but a transport.\<close>

definition transportOnly :: "transportFactory \<Rightarrow> clientConfig" where
  "transportOnly t =
     \<lparr>chain = None, key = None, name = None, pollingInterval = None,
      transport = t, type = None\<rparr>"

section \<open>Concrete inputs\<close>

text \<open>The mock transport and the \<^verbatim>\<open>localhost\<close> chain of the test of \<^verbatim>\<open>createClient\<close>.\<close>

definition mockTransport :: transportFactory where
  "mockTransport = (\<lambda>_. createTransport ''mock'' ''Mock Transport'' (\<lambda>_ _. Inr ''null'') ''mock'')"

definition localhost :: jsobj where
  "localhost =
    [(''id'', Num 1337),
     (''name'', Str ''Localhost''),
     (''nativeCurrency'',
        Obj [(''decimals'', Num 18), (''name'', Str ''Ether''), (''symbol'', Str ''ETH'')]),
     (''network'', Str ''localhost''),
     (''rpcUrls'', Obj [(''default'', Obj [(''http'', Arr [Str ''http://127.0.0.1:8545''])])])]"

text \<open>A client and the parameters of the example in the documentation of \<^verbatim>\<open>estimateTotalGas\<close>.\<close>

definition mockClient :: jsobj where
  "mockClient = createClient (transportOnly mockTransport) ''c0ffee''"

definition transferArgs :: jsobj where
  "transferArgs =
    [(''account'', Str ''0xA0Cf798816D4b9b9866b5330EEa46a18382f251e''),
     (''to'', Str ''0x70997970c51812dc3a010c7d01b50e0d17dc79c8''),
     (''value'', Num 1000000000000000000)]"

text \<open>
  Imported actions that all resolve. Preparation adds a nonce; the L1 estimate is
  \<open>2 ^ 64 + 1\<close>, the L2 estimate \<open>2 ^ 53 + 1\<close> (neither fits a 64-bit integer sum or a
  double exactly).
\<close>

definition allResolve :: "(jsobj, jsobj, jsobj) imported" where
  "allResolve =
    \<lparr>prepareTransactionRequest =
       (\<lambda>client args. \<lparr>outcome = Inr (args @ [(''nonce'', Num 7)]), rpcCalls = 2\<rparr>),
     estimateL1Gas = (\<lambda>client request. \<lparr>outcome = Inr 18446744073709551617, rpcCalls = 1\<rparr>),
     estimateGas = (\<lambda>client request. \<lparr>outcome = Inr 9007199254740993, rpcCalls = 1\<rparr>)\<rparr>"

text \<open>
  Modelled from the spec: the three imported actions, each of them an action in the
  spec's sense (a function that issues one or more RPC calls through a client), here
  issuing exactly one RPC call each and resolving.
\<close>

definition oneCallEach :: "(jsobj, jsobj, jsobj) imported" where
  "oneCallEach =
    \<lparr>prepareTransactionRequest =
       (\<lambda>client args. \<lparr>outcome = Inr (args @ [(''nonce'', Num 7)]), rpcCalls = 1\<rparr>),
     estimateL1Gas = (\<lambda>client request. \<lparr>outcome = Inr 1600, rpcCalls = 1\<rparr>),
     estimateGas = (\<lambda>client request. \<lparr>outcome = Inr 21000, rpcCalls = 1\<rparr>)\<rparr>"

text \<open>Preparation rejects after one RPC call.\<close>

definition prepareRejects :: "(jsobj, jsobj, jsobj) imported" where
  "prepareRejects =
    \<lparr>prepareTransactionRequest =
       (\<lambda>client args.
          \<lparr>outcome = Inl (PrepareTransactionRequestError ''account not found''), rpcCalls = 1\<rparr>),
     estimateL1Gas = (\<lambda>client request. \<lparr>outcome = Inr 1600, rpcCalls = 1\<rparr>),
     estimateGas = (\<lambda>client request. \<lparr>outcome = Inr 21000, rpcCalls = 1\<rparr>)\<rparr>"

text \<open>Preparation resolves and both estimates reject, each with an error of its own.\<close>

definition bothEstimatesReject :: "(jsobj, jsobj, jsobj) imported" where
  "bothEstimatesReject =
    \<lparr>prepareTransactionRequest =
       (\<lambda>client args. \<lparr>outcome = Inr (args @ [(''nonce'', Num 7)]), rpcCalls = 1\<rparr>),
     estimateL1Gas =
       (\<lambda>client request.
          \<lparr>outcome = Inl (EstimateL1GasError ''oracle call reverted''), rpcCalls = 1\<rparr>),
     estimateGas =
       (\<lambda>client request.
          \<lparr>outcome = Inl (EstimateGasError ''execution reverted''), rpcCalls = 1\<rparr>)\<rparr>"

text \<open>Preparation resolves, the L1 estimate resolves and the L2 estimate rejects.\<close>

definition l2EstimateRejects :: "(jsobj, jsobj, jsobj) imported" where
  "l2EstimateRejects =
    \<lparr>prepareTransactionRequest =
       (\<lambda>client args. \<lparr>outcome = Inr (args @ [(''nonce'', Num 7)]), rpcCalls = 1\<rparr>),
     estimateL1Gas = (\<lambda>client request. \<lparr>outcome = Inr 1600, rpcCalls = 1\<rparr>),
     estimateGas =
       (\<lambda>client request.
          \<lparr>outcome = Inl (EstimateGasError ''execution reverted''), rpcCalls = 1\<rparr>)\<rparr>"

section \<open>Promise.all: helper facts\<close>

lemma promiseAll_resolves:
  "promiseAll ord p q = Inr (x, y) \<longleftrightarrow> p = Inr x \<and> q = Inr y"
  by (cases ord; cases p; cases q) simp_all

lemma promiseAll_both_reject:
  "promiseAll ord (Inl e1) (Inl e2)
     = Inl (case ord of FirstSettlesFirst \<Rightarrow> e1 | SecondSettlesFirst \<Rightarrow> e2)"
  by (cases ord) simp_all

lemma allResolve_prepared:
  "outcome (prepareTransactionRequest allResolve mockClient transferArgs)
     = Inr (transferArgs @ [(''nonce'', Num 7)])"
  by (simp add: allResolve_def)

lemma allResolve_l1:
  "outcome (estimateL1Gas allResolve mockClient (transferArgs @ [(''nonce'', Num 7)]))
     = Inr 18446744073709551617"
  by (simp add: allResolve_def)

lemma allResolve_l2:
  "outcome (estimateGas allResolve mockClient (transferArgs @ [(''nonce'', Num 7)]))
     = Inr 9007199254740993"
  by (simp add: allResolve_def)

lemma prepareRejects_prepared:
  "outcome (prepareTransactionRequest prepareRejects mockClient transferArgs)
     = Inl (PrepareTransactionRequestError ''account not found'')"
  by (simp add: prepareRejects_def)

lemma bothEstimatesReject_outcomes:
  "outcome (prepareTransactionRequest bothEstimatesReject mockClient transferArgs)
     = Inr (transferArgs @ [(''nonce'', Num 7)])"
  "outcome (estimateL1Gas bothEstimatesReject mockClient (transferArgs @ [(''nonce'', Num 7)]))
     = Inl (EstimateL1GasError ''oracle call reverted'')"
  "outcome (estimateGas bothEstimatesReject mockClient (transferArgs @ [(''nonce'', Num 7)]))
     = Inl (EstimateGasError ''execution reverted'')"
  by (simp_all add: bothEstimatesReject_def)

lemma l2EstimateRejects_outcomes:
  "outcome (prepareTransactionRequest l2EstimateRejects mockClient transferArgs)
     = Inr (transferArgs @ [(''nonce'', Num 7)])"
  "outcome (estimateL1Gas l2EstimateRejects mockClient (transferArgs @ [(''nonce'', Num 7)]))
     = Inr 1600"
  "outcome (estimateGas l2EstimateRejects mockClient (transferArgs @ [(''nonce'', Num 7)]))
     = Inl (EstimateGasError ''execution reverted'')"
  by (simp_all add: l2EstimateRejects_def)

section \<open>The total gas estimate is the sum of the two estimates\<close>

text \<open>
  C1. When preparation resolves with \<open>request\<close> and the two estimates over \<open>request\<close>
  resolve with \<open>l1Gas\<close> and \<open>l2Gas\<close>, \<^verbatim>\<open>estimateTotalGas(client, args)\<close> returns
  \<open>l1Gas + l2Gas\<close>, whichever estimate settles first, and the two estimates were both
  requested for that one prepared request.
\<close>

theorem estimateTotalGas_sum:
  assumes "outcome (prepareTransactionRequest env client args) = Inr request"
    and "outcome (estimateL1Gas env client request) = Inr l1Gas"
    and "outcome (estimateGas env client request) = Inr l2Gas"
  shows "returned (estimateTotalGas env order client args) = Inr (l1Gas + l2Gas)
       \<and> calls (estimateTotalGas env order client args) =
           [PrepareTransactionRequestCall client args,
            EstimateL1GasCall client request,
            EstimateGasCall client request]"
  using assms by (simp add: estimateTotalGas_def Let_def)

text \<open>C1 at the documentation's transfer, with estimates \<open>2 ^ 64 + 1\<close> and \<open>2 ^ 53 + 1\<close>.\<close>

theorem estimateTotalGas_sum_witness:
  "outcome (prepareTransactionRequest allResolve mockClient transferArgs)
     = Inr (transferArgs @ [(''nonce'', Num 7)])
   \<and> outcome (estimateL1Gas allResolve mockClient (transferArgs @ [(''nonce'', Num 7)]))
     = Inr 18446744073709551617
   \<and> outcome (estimateGas allResolve mockClient (transferArgs @ [(''nonce'', Num 7)]))
     = Inr 9007199254740993
   \<and> returned (estimateTotalGas allResolve SecondSettlesFirst mockClient transferArgs)
     = Inr 18455751272964292610"
  using estimateTotalGas_sum [OF allResolve_prepared allResolve_l1 allResolve_l2,
      of SecondSettlesFirst]
    allResolve_prepared allResolve_l1 allResolve_l2
  by simp

section \<open>One preparation, one request for both estimates, exact addition\<close>

text \<open>
  C8. Every invocation of \<^verbatim>\<open>estimateTotalGas\<close> calls \<^verbatim>\<open>prepareTransactionRequest\<close>
  exactly once. When it resolves with \<open>request\<close>, \<^verbatim>\<open>estimateL1Gas\<close> and
  \<^verbatim>\<open>estimateGas\<close> are each called once with that same \<open>request\<close>, and when both
  resolve the result is their sum in the unbounded integers: no wrap-around, no rounding.
\<close>

theorem estimateTotalGas_single_prepare:
  "length (filter isPrepareCall (calls (estimateTotalGas env order client args))) = 1
   \<and> (\<forall>request. outcome (prepareTransactionRequest env client args) = Inr request \<longrightarrow>
         calls (estimateTotalGas env order client args) =
           [PrepareTransactionRequestCall client args,
            EstimateL1GasCall client request,
            EstimateGasCall client request]
         \<and> (\<forall>l1Gas l2Gas.
               outcome (estimateL1Gas env client request) = Inr l1Gas
               \<and> outcome (estimateGas env client request) = Inr l2Gas \<longrightarrow>
               returned (estimateTotalGas env order client args) = Inr (l1Gas + l2Gas)))"
  by (simp add: estimateTotalGas_def Let_def split: sum.splits)

text \<open>
  C8 at the documentation's transfer: the sum of \<open>2 ^ 64 + 1\<close> and \<open>2 ^ 53 + 1\<close> is
  exact.
\<close>

theorem estimateTotalGas_single_prepare_witness:
  "outcome (prepareTransactionRequest allResolve mockClient transferArgs)
     = Inr (transferArgs @ [(''nonce'', Num 7)])
   \<and> length (filter isPrepareCall
        (calls (estimateTotalGas allResolve FirstSettlesFirst mockClient transferArgs))) = 1
   \<and> calls (estimateTotalGas allResolve FirstSettlesFirst mockClient transferArgs) =
        [PrepareTransactionRequestCall mockClient transferArgs,
         EstimateL1GasCall mockClient (transferArgs @ [(''nonce'', Num 7)]),
         EstimateGasCall mockClient (transferArgs @ [(''nonce'', Num 7)])]
   \<and> returned (estimateTotalGas allResolve FirstSettlesFirst mockClient transferArgs)
        = Inr (18446744073709551617 + 9007199254740993)
   \<and> (18446744073709551617 + 9007199254740993 :: int) = 18455751272964292610"
  using estimateTotalGas_single_prepare [of allResolve FirstSettlesFirst mockClient transferArgs]
    allResolve_prepared allResolve_l1 allResolve_l2
  by simp

section \<open>Failure of a delegated step\<close>

text \<open>
  C9, as stated, at a concrete input: preparation resolves, \<^verbatim>\<open>estimateL1Gas\<close> and
  \<^verbatim>\<open>estimateGas\<close> both reject, and the L1 estimate settles first. \<^verbatim>\<open>estimateGas\<close>
  failed with \<open>EstimateGasError\<close>, yet \<^verbatim>\<open>estimateTotalGas\<close> fails with the error of
  \<^verbatim>\<open>estimateL1Gas\<close>, not with that one.
\<close>

theorem estimateTotalGas_failure_counterexample:
  "outcome (prepareTransactionRequest bothEstimatesReject mockClient transferArgs)
     = Inr (transferArgs @ [(''nonce'', Num 7)])
   \<and> outcome (estimateGas bothEstimatesReject mockClient (transferArgs @ [(''nonce'', Num 7)]))
     = Inl (EstimateGasError ''execution reverted'')
   \<and> returned (estimateTotalGas bothEstimatesReject FirstSettlesFirst mockClient transferArgs)
     = Inl (EstimateL1GasError ''oracle call reverted'')
   \<and> returned (estimateTotalGas bothEstimatesReject FirstSettlesFirst mockClient transferArgs)
     \<noteq> Inl (EstimateGasError ''execution reverted'')"
  by (simp add: estimateTotalGas_def bothEstimatesReject_def)

text \<open>
  C9, amended. If \<^verbatim>\<open>prepareTransactionRequest\<close> fails, \<^verbatim>\<open>estimateTotalGas\<close> fails with
  that error and requests neither estimate. If it resolves and exactly one of
  \<^verbatim>\<open>estimateL1Gas\<close>, \<^verbatim>\<open>estimateGas\<close> fails, \<^verbatim>\<open>estimateTotalGas\<close> fails with that
  error; if both fail, it fails with the error of the one that settles first.
  \<^verbatim>\<open>estimateTotalGas\<close> returns a value if and only if all three steps succeed.
\<close>

theorem estimateTotalGas_failure:
  "(\<forall>e. outcome (prepareTransactionRequest env client args) = Inl e \<longrightarrow>
        returned (estimateTotalGas env order client args) = Inl e
        \<and> calls (estimateTotalGas env order client args)
            = [PrepareTransactionRequestCall client args])
   \<and> (\<forall>request. outcome (prepareTransactionRequest env client args) = Inr request \<longrightarrow>
        (\<forall>e v. outcome (estimateL1Gas env client request) = Inl e
               \<and> outcome (estimateGas env client request) = Inr v \<longrightarrow>
               returned (estimateTotalGas env order client args) = Inl e)
        \<and> (\<forall>e v. outcome (estimateL1Gas env client request) = Inr v
               \<and> outcome (estimateGas env client request) = Inl e \<longrightarrow>
               returned (estimateTotalGas env order client args) = Inl e)
        \<and> (\<forall>e1 e2. outcome (estimateL1Gas env client request) = Inl e1
               \<and> outcome (estimateGas env client request) = Inl e2 \<longrightarrow>
               returned (estimateTotalGas env order client args)
                 = Inl (case order of FirstSettlesFirst \<Rightarrow> e1 | SecondSettlesFirst \<Rightarrow> e2)))
   \<and> ((\<exists>v. returned (estimateTotalGas env order client args) = Inr v) \<longleftrightarrow>
        (\<exists>request l1Gas l2Gas.
           outcome (prepareTransactionRequest env client args) = Inr request
           \<and> outcome (estimateL1Gas env client request) = Inr l1Gas
           \<and> outcome (estimateGas env client request) = Inr l2Gas))"
proof (cases "outcome (prepareTransactionRequest env client args)")
  case (Inl e)
  then show ?thesis
    by (simp add: estimateTotalGas_def Let_def)
next
  case (Inr request)
  then show ?thesis
    by (auto simp: estimateTotalGas_def Let_def promiseAll_resolves promiseAll_both_reject
             split: sum.splits)
qed

text \<open>
  The amended C9 where preparation rejects, where only the L2 estimate rejects, where
  both estimates reject (in either settling order), and where all three resolve.
\<close>

theorem estimateTotalGas_failure_witness:
  "outcome (prepareTransactionRequest prepareRejects mockClient transferArgs)
     = Inl (PrepareTransactionRequestError ''account not found'')
   \<and> returned (estimateTotalGas prepareRejects FirstSettlesFirst mockClient transferArgs)
     = Inl (PrepareTransactionRequestError ''account not found'')
   \<and> calls (estimateTotalGas prepareRejects FirstSettlesFirst mockClient transferArgs)
     = [PrepareTransactionRequestCall mockClient transferArgs]
   \<and> outcome (estimateGas l2EstimateRejects mockClient (transferArgs @ [(''nonce'', Num 7)]))
     = Inl (EstimateGasError ''execution reverted'')
   \<and> returned (estimateTotalGas l2EstimateRejects FirstSettlesFirst mockClient transferArgs)
     = Inl (EstimateGasError ''execution reverted'')
   \<and> returned (estimateTotalGas bothEstimatesReject FirstSettlesFirst mockClient transferArgs)
     = Inl (EstimateL1GasError ''oracle call reverted'')
   \<and> returned (estimateTotalGas bothEstimatesReject SecondSettlesFirst mockClient transferArgs)
     = Inl (EstimateGasError ''execution reverted'')
   \<and> (\<exists>v. returned (estimateTotalGas allResolve FirstSettlesFirst mockClient transferArgs)
          = Inr v)"
  using estimateTotalGas_failure [of prepareRejects mockClient transferArgs FirstSettlesFirst]
    estimateTotalGas_failure [of l2EstimateRejects mockClient transferArgs FirstSettlesFirst]
    estimateTotalGas_failure [of bothEstimatesReject mockClient transferArgs FirstSettlesFirst]
    estimateTotalGas_failure [of bothEstimatesReject mockClient transferArgs SecondSettlesFirst]
    estimateTotalGas_failure [of allResolve mockClient transferArgs FirstSettlesFirst]
    prepareRejects_prepared bothEstimatesReject_outcomes l2EstimateRejects_outcomes
    allResolve_prepared allResolve_l1 allResolve_l2
  by simp

section \<open>RPC calls of one invocation\<close>

text \<open>
  C2, as stated, at a concrete input: with imported actions that issue one RPC call each
  and resolve, one invocation of \<^verbatim>\<open>estimateTotalGas\<close> issues three RPC calls, which is
  more than two.
\<close>

theorem estimateTotalGas_rpc_calls_counterexample:
  "outcome (prepareTransactionRequest oneCallEach mockClient transferArgs)
     = Inr (transferArgs @ [(''nonce'', Num 7)])
   \<and> rpcCalls (prepareTransactionRequest oneCallEach mockClient transferArgs) = 1
   \<and> rpcCalls (estimateL1Gas oneCallEach mockClient (transferArgs @ [(''nonce'', Num 7)])) = 1
   \<and> rpcCalls (estimateGas oneCallEach mockClient (transferArgs @ [(''nonce'', Num 7)])) = 1
   \<and> returned (estimateTotalGas oneCallEach FirstSettlesFirst mockClient transferArgs)
     = Inr 22600
   \<and> rpcTotal (estimateTotalGas oneCallEach FirstSettlesFirst mockClient transferArgs) = 3
   \<and> \<not> rpcTotal (estimateTotalGas oneCallEach FirstSettlesFirst mockClient transferArgs) \<le> 2"
  by (simp add: estimateTotalGas_def oneCallEach_def)

text \<open>
  C2, amended. \<^verbatim>\<open>estimateTotalGas\<close> issues no RPC call of its own. One invocation
  issues the RPC calls of \<^verbatim>\<open>prepareTransactionRequest\<close> and, when that resolves, also
  those of \<^verbatim>\<open>estimateL1Gas\<close> and of \<^verbatim>\<open>estimateGas\<close>: their number is the sum of the
  three, which is three or more when each action issues at least one.
\<close>

theorem estimateTotalGas_rpc_calls:
  "(\<forall>e. outcome (prepareTransactionRequest env client args) = Inl e \<longrightarrow>
        rpcTotal (estimateTotalGas env order client args)
          = rpcCalls (prepareTransactionRequest env client args))
   \<and> (\<forall>request. outcome (prepareTransactionRequest env client args) = Inr request \<longrightarrow>
        rpcTotal (estimateTotalGas env order client args)
          = rpcCalls (prepareTransactionRequest env client args)
            + rpcCalls (estimateL1Gas env client request)
            + rpcCalls (estimateGas env client request)
        \<and> (1 \<le> rpcCalls (prepareTransactionRequest env client args)
            \<and> 1 \<le> rpcCalls (estimateL1Gas env client request)
            \<and> 1 \<le> rpcCalls (estimateGas env client request) \<longrightarrow>
            3 \<le> rpcTotal (estimateTotalGas env order client args)))"
  by (simp add: estimateTotalGas_def Let_def split: sum.splits)

text \<open>The amended C2 where all three actions resolve and where preparation rejects.\<close>

theorem estimateTotalGas_rpc_calls_witness:
  "outcome (prepareTransactionRequest allResolve mockClient transferArgs)
     = Inr (transferArgs @ [(''nonce'', Num 7)])
   \<and> rpcTotal (estimateTotalGas allResolve FirstSettlesFirst mockClient transferArgs) = 4
   \<and> 3 \<le> rpcTotal (estimateTotalGas allResolve FirstSettlesFirst mockClient transferArgs)
   \<and> outcome (prepareTransactionRequest prepareRejects mockClient transferArgs)
     = Inl (PrepareTransactionRequestError ''account not found'')
   \<and> rpcTotal (estimateTotalGas prepareRejects FirstSettlesFirst mockClient transferArgs) = 1"
  using estimateTotalGas_rpc_calls [of allResolve mockClient transferArgs FirstSettlesFirst]
    estimateTotalGas_rpc_calls [of prepareRejects mockClient transferArgs FirstSettlesFirst]
    allResolve_prepared prepareRejects_prepared
  by (simp add: allResolve_def prepareRejects_def)

section \<open>Chain definition tables\<close>

text \<open>
  C7. \<^verbatim>\<open>skaleCryptoColosseum\<close> has id 2046399126, name "SKALE | Crypto Colosseum",
  native currency sFUEL with symbol sFUEL and 18 decimals, the default HTTP and WebSocket
  RPC URLs of the table, the default block explorer "SKALE Explorer" with its URL, and an
  empty contracts record.
\<close>

theorem skaleCryptoColosseum_table:
  "property skaleCryptoColosseum ''id'' = Num 2046399126
   \<and> property skaleCryptoColosseum ''name'' = Str ''SKALE | Crypto Colosseum''
   \<and> property skaleCryptoColosseum ''nativeCurrency''
       = Obj [(''name'', Str ''sFUEL''), (''symbol'', Str ''sFUEL''), (''decimals'', Num 18)]
   \<and> path (Obj skaleCryptoColosseum) [''rpcUrls'', ''default'', ''http'']
       = Some (Arr [Str ''https://mainnet.skalenodes.com/v1/haunting-devoted-deneb''])
   \<and> path (Obj skaleCryptoColosseum) [''rpcUrls'', ''default'', ''webSocket'']
       = Some (Arr [Str ''wss://mainnet.skalenodes.com/v1/ws/haunting-devoted-deneb''])
   \<and> path (Obj skaleCryptoColosseum) [''blockExplorers'', ''default'']
       = Some (Obj [(''name'', Str ''SKALE Explorer''),
            (''url'', Str ''https://haunting-devoted-deneb.explorer.mainnet.skalenodes.com'')])
   \<and> property skaleCryptoColosseum ''contracts'' = Obj []"
  by (simp add: skaleCryptoColosseum_def defineChain_def property_def)

section \<open>Clients\<close>

text \<open>Every member of a client, read by name.\<close>

lemma property_createClient:
  "property (createClient config uid) m =
     (if m = ''chain'' then (case chain config of None \<Rightarrow> Undefined | Some c \<Rightarrow> Obj c)
      else if m = ''key'' then Str (case key config of None \<Rightarrow> ''base'' | Some k \<Rightarrow> k)
      else if m = ''name'' then Str (case name config of None \<Rightarrow> ''Base Client'' | Some n \<Rightarrow> n)
      else if m = ''pollingInterval''
        then Num (case pollingInterval config of None \<Rightarrow> 4000 | Some ms \<Rightarrow> ms)
      else if m = ''request'' then RequestFn (requestOf (transport config ()))
      else if m = ''transport'' then Obj (transport config ())
      else if m = ''type'' then Str (case type config of None \<Rightarrow> ''base'' | Some t \<Rightarrow> t)
      else if m = ''uid'' then Str uid
      else Undefined)"
  by (simp add: property_def createClient_def Let_def)

lemma requestOf_createTransport:
  "requestOf (createTransport k n rq ty @ extra) = rq"
  by (simp add: requestOf_def property_def createTransport_def)

lemma requestOf_createTransport_plain:
  "requestOf (createTransport k n rq ty) = rq"
  by (simp add: requestOf_def property_def createTransport_def)

text \<open>The model gives the snapshots of the test: the mock transport, and HTTP on localhost.\<close>

lemma createClient_mock_snapshot:
  "createClient (transportOnly mockTransport) uid =
     [(''chain'', Undefined), (''key'', Str ''base''), (''name'', Str ''Base Client''),
      (''pollingInterval'', Num 4000), (''request'', RequestFn (\<lambda>_ _. Inr ''null'')),
      (''transport'',
         Obj [(''key'', Str ''mock''), (''name'', Str ''Mock Transport''),
              (''request'', RequestFn (\<lambda>_ _. Inr ''null'')), (''type'', Str ''mock'')]),
      (''type'', Str ''base''), (''uid'', Str uid)]"
  by (simp add: createClient_def transportOnly_def mockTransport_def Let_def
        requestOf_createTransport_plain)
     (simp add: createTransport_def)

lemma createClient_http_snapshot:
  "createClient ((transportOnly (http rpc None))\<lparr>chain := Some localhost\<rparr>) uid =
     [(''chain'', Obj localhost), (''key'', Str ''base''), (''name'', Str ''Base Client''),
      (''pollingInterval'', Num 4000), (''request'', RequestFn rpc),
      (''transport'',
         Obj [(''key'', Str ''http''), (''name'', Str ''HTTP JSON-RPC''),
              (''request'', RequestFn rpc), (''type'', Str ''http''), (''url'', Undefined)]),
      (''type'', Str ''base''), (''uid'', Str uid)]"
  by (simp add: createClient_def transportOnly_def http_def Let_def requestOf_createTransport)
     (simp add: createTransport_def)

text \<open>
  C3. For every transport, \<^verbatim>\<open>createClient({ transport })\<close> returns a client with key
  "base", name "Base Client", type "base", polling interval 4000, chain undefined, the
  transport object that the transport produced, and a request function. A chain
  supplied in the configuration is the chain of the returned client.
\<close>

theorem createClient_defaults:
  "property (createClient (transportOnly t) uid) ''key'' = Str ''base''
   \<and> property (createClient (transportOnly t) uid) ''name'' = Str ''Base Client''
   \<and> property (createClient (transportOnly t) uid) ''type'' = Str ''base''
   \<and> property (createClient (transportOnly t) uid) ''pollingInterval'' = Num 4000
   \<and> property (createClient (transportOnly t) uid) ''chain'' = Undefined
   \<and> property (createClient (transportOnly t) uid) ''transport'' = Obj (t ())
   \<and> property (createClient (transportOnly t) uid) ''request'' = RequestFn (requestOf (t ()))
   \<and> isRequestFn (property (createClient (transportOnly t) uid) ''request'')
   \<and> property (createClient (config\<lparr>chain := Some c\<rparr>) uid) ''chain'' = Obj c"
  by (simp add: property_createClient transportOnly_def)

text \<open>
  C4. Overriding one of \<^verbatim>\<open>key\<close>, \<^verbatim>\<open>name\<close>, \<^verbatim>\<open>pollingInterval\<close>, \<^verbatim>\<open>type\<close> in
  \<^verbatim>\<open>createClient({ transport })\<close> gives the default client with that one member
  replaced; and for every configuration, the override leaves every other member of the
  client as it was.
\<close>

theorem createClient_override:
  "createClient ((transportOnly t)\<lparr>key := Some k\<rparr>) uid =
     [(''chain'', Undefined), (''key'', Str k), (''name'', Str ''Base Client''),
      (''pollingInterval'', Num 4000), (''request'', RequestFn (requestOf (t ()))),
      (''transport'', Obj (t ())), (''type'', Str ''base''), (''uid'', Str uid)]
   \<and> createClient ((transportOnly t)\<lparr>name := Some n\<rparr>) uid =
     [(''chain'', Undefined), (''key'', Str ''base''), (''name'', Str n),
      (''pollingInterval'', Num 4000), (''request'', RequestFn (requestOf (t ()))),
      (''transport'', Obj (t ())), (''type'', Str ''base''), (''uid'', Str uid)]
   \<and> createClient ((transportOnly t)\<lparr>pollingInterval := Some ms\<rparr>) uid =
     [(''chain'', Undefined), (''key'', Str ''base''), (''name'', Str ''Base Client''),
      (''pollingInterval'', Num ms), (''request'', RequestFn (requestOf (t ()))),
      (''transport'', Obj (t ())), (''type'', Str ''base''), (''uid'', Str uid)]
   \<and> createClient ((transportOnly t)\<lparr>type := Some ty\<rparr>) uid =
     [(''chain'', Undefined), (''key'', Str ''base''), (''name'', Str ''Base Client''),
      (''pollingInterval'', Num 4000), (''request'', RequestFn (requestOf (t ()))),
      (''transport'', Obj (t ())), (''type'', Str ty), (''uid'', Str uid)]
   \<and> (\<forall>m. m \<noteq> ''key'' \<longrightarrow>
          property (createClient (config\<lparr>key := Some k\<rparr>) uid) m
            = property (createClient config uid) m)
   \<and> (\<forall>m. m \<noteq> ''name'' \<longrightarrow>
          property (createClient (config\<lparr>name := Some n\<rparr>) uid) m
            = property (createClient config uid) m)
   \<and> (\<forall>m. m \<noteq> ''pollingInterval'' \<longrightarrow>
          property (createClient (config\<lparr>pollingInterval := Some ms\<rparr>) uid) m
            = property (createClient config uid) m)
   \<and> (\<forall>m. m \<noteq> ''type'' \<longrightarrow>
          property (createClient (config\<lparr>type := Some ty\<rparr>) uid) m
            = property (createClient config uid) m)"
  by (simp add: property_createClient) (simp add: createClient_def transportOnly_def Let_def)

text \<open>
  C4 at the overrides of the test (\<^verbatim>\<open>key: 'bar'\<close>, \<^verbatim>\<open>pollingInterval: 10_000\<close>) on
  the mock transport.
\<close>

theorem createClient_override_witness:
  "''name'' \<noteq> ''key''
   \<and> property (createClient ((transportOnly mockTransport)\<lparr>key := Some ''bar''\<rparr>) ''c0ffee'')
        ''name''
     = property (createClient (transportOnly mockTransport) ''c0ffee'') ''name''
   \<and> property (createClient ((transportOnly mockTransport)\<lparr>key := Some ''bar''\<rparr>) ''c0ffee'')
        ''key''
     = Str ''bar''
   \<and> ''type'' \<noteq> ''pollingInterval''
   \<and> property
        (createClient ((transportOnly mockTransport)\<lparr>pollingInterval := Some 10000\<rparr>) ''c0ffee'')
        ''type''
     = property (createClient (transportOnly mockTransport) ''c0ffee'') ''type''
   \<and> property
        (createClient ((transportOnly mockTransport)\<lparr>pollingInterval := Some 10000\<rparr>) ''c0ffee'')
        ''pollingInterval''
     = Num 10000"
proof -
  note frame = createClient_override [where t = mockTransport and k = "''bar''"
      and uid = "''c0ffee''" and ms = 10000 and config = "transportOnly mockTransport"]
  note keyObj = frame [THEN conjunct1]
  note msObj = frame [THEN conjunct2, THEN conjunct2, THEN conjunct1]
  note keyFrame = frame [THEN conjunct2, THEN conjunct2, THEN conjunct2, THEN conjunct2,
      THEN conjunct1, rule_format, of "''name''"]
  note msFrame = frame [THEN conjunct2, THEN conjunct2, THEN conjunct2, THEN conjunct2,
      THEN conjunct2, THEN conjunct2, THEN conjunct1, rule_format, of "''type''"]
  have a: "property (createClient ((transportOnly mockTransport)\<lparr>key := Some ''bar''\<rparr>) ''c0ffee'')
        ''name''
     = property (createClient (transportOnly mockTransport) ''c0ffee'') ''name''"
    using keyFrame by simp
  have b: "property
        (createClient ((transportOnly mockTransport)\<lparr>pollingInterval := Some 10000\<rparr>) ''c0ffee'')
        ''type''
     = property (createClient (transportOnly mockTransport) ''c0ffee'') ''type''"
    using msFrame by simp
  have c: "property (createClient ((transportOnly mockTransport)\<lparr>key := Some ''bar''\<rparr>) ''c0ffee'')
        ''key'' = Str ''bar''"
    by (simp add: keyObj property_def)
  have d: "property
        (createClient ((transportOnly mockTransport)\<lparr>pollingInterval := Some 10000\<rparr>) ''c0ffee'')
        ''pollingInterval'' = Num 10000"
    by (simp add: msObj property_def)
  show ?thesis
    using a b c d by simp
qed

text \<open>
  C5. Whatever transport is bound (HTTP, WebSocket, an injected provider, or a mock
  built with \<^verbatim>\<open>createTransport\<close>), the client has a \<^verbatim>\<open>request\<close> member of the
  EIP-1193 request shape, it is the only function among the client's members, and it is
  the request of the bound transport.
\<close>

theorem createClient_request_entry:
  "isRequestFn (property (createClient config uid) ''request'')
   \<and> functionMembers (createClient config uid) = [''request'']
   \<and> property (createClient (config\<lparr>transport := http rpc url\<rparr>) uid) ''request''
       = RequestFn rpc
   \<and> property (createClient (config\<lparr>transport := webSocket rpc wsUrl\<rparr>) uid) ''request''
       = RequestFn rpc
   \<and> property (createClient (config\<lparr>transport := ethereumProvider rpc\<rparr>) uid) ''request''
       = RequestFn rpc
   \<and> property (createClient (config\<lparr>transport := (\<lambda>_. createTransport k n rpc ty)\<rparr>) uid)
         ''request''
       = RequestFn rpc"
  by (simp add: property_createClient requestOf_createTransport
        requestOf_createTransport_plain http_def webSocket_def ethereumProvider_def)
     (simp add: functionMembers_def createClient_def Let_def split: option.splits)

text \<open>
  C6. The transport object of \<^verbatim>\<open>webSocket\<close> has the members \<^verbatim>\<open>subscribe\<close> and
  \<^verbatim>\<open>getSocket\<close> besides \<^verbatim>\<open>request\<close>. The transport objects of \<^verbatim>\<open>http\<close> and
  \<^verbatim>\<open>ethereumProvider\<close> have \<^verbatim>\<open>key\<close>, \<^verbatim>\<open>name\<close>, \<^verbatim>\<open>request\<close>, \<^verbatim>\<open>type\<close> (and
  \<^verbatim>\<open>url\<close> for \<^verbatim>\<open>http\<close>) and nothing else: \<^verbatim>\<open>request\<close> is their only function, and
  they have no \<^verbatim>\<open>subscribe\<close> and no \<^verbatim>\<open>getSocket\<close>.
\<close>

theorem transport_members:
  "map fst (webSocket rpc url ())
     = [''key'', ''name'', ''request'', ''type'', ''getSocket'', ''subscribe'']
   \<and> functionMembers (webSocket rpc url ()) = [''request'', ''getSocket'', ''subscribe'']
   \<and> hasProperty (webSocket rpc url ()) ''subscribe''
   \<and> hasProperty (webSocket rpc url ()) ''getSocket''
   \<and> hasProperty (webSocket rpc url ()) ''request''
   \<and> map fst (http rpc httpUrl ()) = [''key'', ''name'', ''request'', ''type'', ''url'']
   \<and> functionMembers (http rpc httpUrl ()) = [''request'']
   \<and> \<not> hasProperty (http rpc httpUrl ()) ''subscribe''
   \<and> \<not> hasProperty (http rpc httpUrl ()) ''getSocket''
   \<and> map fst (ethereumProvider rpc ()) = [''key'', ''name'', ''request'', ''type'']
   \<and> functionMembers (ethereumProvider rpc ()) = [''request'']
   \<and> \<not> hasProperty (ethereumProvider rpc ()) ''subscribe''
   \<and> \<not> hasProperty (ethereumProvider rpc ()) ''getSocket''"
  by (simp add: webSocket_def http_def ethereumProvider_def createTransport_def
        functionMembers_def hasProperty_def split: option.splits)

text \<open>
  C10. For every configuration (every transport, every combination of overrides), the
  client returned by \<^verbatim>\<open>createClient\<close> has a \<^verbatim>\<open>uid\<close> member, and it is not
  \<^verbatim>\<open>undefined\<close>.
\<close>

theorem createClient_uid_defined:
  "hasProperty (createClient config uid) ''uid''
   \<and> property (createClient config uid) ''uid'' = Str uid
   \<and> property (createClient config uid) ''uid'' \<noteq> Undefined"
  by (simp add: property_createClient) (simp add: hasProperty_def createClient_def Let_def)

end
